theory Spec2Isabelle
  imports Complex_Main "HOL-Library.AList"
begin

section \<open>JavaScript values\<close>

text \<open>
  The backend is TypeScript; at run time its values are JavaScript values. A number is
  \<open>NaN\<close>, an infinity or a finite value (the two zeros are one value here: they are
  equal under \<open>===\<close> and both falsy). An object is the list of its own properties, as
  \<open>JSON.parse\<close> builds it from a request body or a definition document; what it inherits
  from \<open>Object.prototype\<close> is written out where the code reads or writes a property by a
  computed name.
\<close>

datatype jsnum = NaN | PosInf | NegInf | Fin rat

datatype jsval =
    JUndefined
  | JNull
  | JBool bool
  | JNum jsnum
  | JStr string
  | JDate int
  | JArr "jsval list"
  | JObj "(string \<times> jsval) list"

definition isNaN :: "jsnum \<Rightarrow> bool" where
  "isNaN n = (n = NaN)"

text \<open>\<open>Boolean(value)\<close>: the falsy values are \<open>undefined\<close>, \<open>null\<close>, \<open>false\<close>,
  zero, \<open>NaN\<close> and the empty string.\<close>

fun Boolean :: "jsval \<Rightarrow> bool" where
  "Boolean JUndefined = False"
| "Boolean JNull = False"
| "Boolean (JBool b) = b"
| "Boolean (JNum n) = (n \<noteq> NaN \<and> n \<noteq> Fin 0)"
| "Boolean (JStr s) = (s \<noteq> [])"
| "Boolean (JDate t) = True"
| "Boolean (JArr xs) = True"
| "Boolean (JObj kvs) = True"

text \<open>\<open>a === b\<close> where \<open>b\<close> is a number.\<close>

fun strict_eq_num :: "jsval \<Rightarrow> jsnum \<Rightarrow> bool" where
  "strict_eq_num (JNum a) b = (a \<noteq> NaN \<and> b \<noteq> NaN \<and> a = b)"
| "strict_eq_num v b = False"

text \<open>
  The conversions between numbers and text (\<open>Number(string)\<close>, \<open>String(number)\<close>,
  \<open>parseInt(string, 10)\<close>, \<open>new Date(string).getTime()\<close>, \<open>String(date)\<close>) belong to the
  JavaScript engine; the functions below take them from a record.
\<close>

record runtime =
  StringToNumber :: "string \<Rightarrow> jsnum"
  NumberToString :: "jsnum \<Rightarrow> string"
  parseInt10 :: "string \<Rightarrow> jsnum"
  DateParse :: "string \<Rightarrow> jsnum"
  DateToString :: "int \<Rightarrow> string"

fun join_comma :: "string list \<Rightarrow> string" where
  "join_comma [] = []"
| "join_comma [s] = s"
| "join_comma (s # t # ss) = s @ '','' @ join_comma (t # ss)"

text \<open>The names every plain object inherits from \<open>Object.prototype\<close>: eleven functions
  and the accessor \<open>__proto__\<close>.\<close>

definition object_prototype_keys :: "string list" where
  "object_prototype_keys =
     [''constructor'', ''__defineGetter__'', ''__defineSetter__'', ''hasOwnProperty'',
      ''__lookupGetter__'', ''__lookupSetter__'', ''isPrototypeOf'', ''propertyIsEnumerable'',
      ''toString'', ''valueOf'', ''__proto__'', ''toLocaleString'']"

fun all_some :: "'a option list \<Rightarrow> 'a list option" where
  "all_some [] = Some []"
| "all_some (None # xs) = None"
| "all_some (Some x # xs) = map_option ((#) x) (all_some xs)"

text \<open>
  \<open>String(value)\<close>; \<open>None\<close> stands for the \<open>TypeError\<close> "Cannot convert object to
  primitive value". An object parsed from JSON that has an own key \<open>toString\<close> shadows
  \<open>Object.prototype.toString\<close> with a value that cannot be called, and \<open>valueOf\<close> gives
  back the object, so the conversion throws; without such a key it gives
  \<open>[object Object]\<close>. An array joins the strings of its elements, \<open>null\<close> and
  \<open>undefined\<close> giving the empty string.
\<close>

fun String_js :: "runtime \<Rightarrow> jsval \<Rightarrow> string option" where
  "String_js rt JUndefined = Some ''undefined''"
| "String_js rt JNull = Some ''null''"
| "String_js rt (JBool b) = Some (if b then ''true'' else ''false'')"
| "String_js rt (JNum n) = Some (NumberToString rt n)"
| "String_js rt (JStr s) = Some s"
| "String_js rt (JDate t) = Some (DateToString rt t)"
| "String_js rt (JArr xs) =
     map_option join_comma
       (all_some (map (\<lambda>x. if x = JNull \<or> x = JUndefined then Some [] else String_js rt x) xs))"
| "String_js rt (JObj kvs) =
     (if ''toString'' \<in> fst ` set kvs then None else Some ''[object Object]'')"

text \<open>\<open>Number(value)\<close>; \<open>None\<close> stands for the same \<open>TypeError\<close>: an object or an array
  is converted through its string.\<close>

fun Number_js :: "runtime \<Rightarrow> jsval \<Rightarrow> jsnum option" where
  "Number_js rt JUndefined = Some NaN"
| "Number_js rt JNull = Some (Fin 0)"
| "Number_js rt (JBool b) = Some (if b then Fin 1 else Fin 0)"
| "Number_js rt (JNum n) = Some n"
| "Number_js rt (JStr s) = Some (StringToNumber rt s)"
| "Number_js rt (JDate t) = Some (Fin (of_int t))"
| "Number_js rt (JArr xs) = map_option (StringToNumber rt) (String_js rt (JArr xs))"
| "Number_js rt (JObj kvs) = map_option (StringToNumber rt) (String_js rt (JObj kvs))"

section \<open>Model definitions (model.types.ts)\<close>

type_synonym FieldType = string

record FieldDefinition =
  fname :: string
  ftype :: FieldType
  required :: "bool option"
  unique :: "bool option"
  fdefault :: "jsval option"
  targetModel :: "string option"

type_synonym RbacPolicy = "string \<rightharpoonup> string list"

record ModelDefinition =
  name :: string
  tableName :: "string option"
  ownerField :: "string option"
  model_fields :: "FieldDefinition list"
  rbac :: "RbacPolicy option"

record DbColumnInfo =
  column_name :: string
  data_type :: string
  is_nullable :: string
  column_default :: "string option"

section \<open>Errors\<close>

text \<open>
  An exception is modelled by its class, which fixes the HTTP status of the response
  (400, 404, 403, and 500 for \<open>HttpException(..., INTERNAL_SERVER_ERROR)\<close> and for
  any exception that is not an \<open>HttpException\<close>, a \<open>TypeError\<close> among them); message
  texts are not kept.
\<close>

datatype http_error =
    BadRequestException
  | NotFoundException
  | ForbiddenException
  | InternalServerError

section \<open>Field coercion (DynamicApiService.validateAndSanitizeData)\<close>

text \<open>
  The request body is a JSON object, read by key. The sanitized object starts as \<open>{}\<close>
  and is built key by key, a key assigned twice keeping its first position.
\<close>

type_synonym payload = "string \<rightharpoonup> jsval"
type_synonym jsobject = "(string \<times> jsval) list"

text \<open>
  \<open>obj[key] = value\<close> on an object built from \<open>{}\<close>: the name \<open>__proto__\<close> is the
  inherited accessor, whose setter changes the prototype or does nothing and never
  creates an own property; every other name becomes an own property.
\<close>

definition assign :: "string \<Rightarrow> jsval \<Rightarrow> jsobject \<Rightarrow> jsobject" where
  "assign key v obj = (if key = ''__proto__'' then obj else AList.update key v obj)"

text \<open>The body of the loop for a field whose key the body has: \<open>Inr None\<close> stands for
  \<open>continue\<close>, \<open>Inr (Some w)\<close> for the assignment \<open>sanitizedData[key] = w\<close>, \<open>Inl\<close> for
  the \<open>TypeError\<close> of \<open>Number(value)\<close>.\<close>

definition coerce_field ::
  "runtime \<Rightarrow> FieldDefinition \<Rightarrow> jsval \<Rightarrow> http_error + jsval option" where
  "coerce_field rt field v =
     (if v = JNull \<or> v = JUndefined \<or> v = JStr [] then Inr None
      else if ftype field = ''number'' \<or> ftype field = ''relation'' then
        (case Number_js rt v of
           None \<Rightarrow> Inl InternalServerError
         | Some numValue \<Rightarrow>
             if isNaN numValue then Inr None else Inr (Some (JNum numValue)))
      else if ftype field = ''boolean'' then Inr (Some (JBool (Boolean v)))
      else Inr (Some v))"

text \<open>
  Each round starts with the call \<open>data.hasOwnProperty(key)\<close>. When the body has an own
  key \<open>hasOwnProperty\<close>, that key shadows the inherited method with a value that cannot
  be called, and the call throws a \<open>TypeError\<close>.
\<close>

fun sanitize_loop ::
  "runtime \<Rightarrow> payload \<Rightarrow> FieldDefinition list \<Rightarrow> jsobject \<Rightarrow> http_error + jsobject" where
  "sanitize_loop rt data [] sanitizedData = Inr sanitizedData"
| "sanitize_loop rt data (field # rest) sanitizedData =
     (if data ''hasOwnProperty'' \<noteq> None then Inl InternalServerError
      else (case data (fname field) of
        None \<Rightarrow> sanitize_loop rt data rest sanitizedData
      | Some v \<Rightarrow>
          (case coerce_field rt field v of
             Inl e \<Rightarrow> Inl e
           | Inr None \<Rightarrow> sanitize_loop rt data rest sanitizedData
           | Inr (Some w) \<Rightarrow>
               sanitize_loop rt data rest (assign (fname field) w sanitizedData))))"

definition validateAndSanitizeData ::
  "runtime \<Rightarrow> payload \<Rightarrow> FieldDefinition list \<Rightarrow> http_error + jsobject" where
  "validateAndSanitizeData rt data flds = sanitize_loop rt data flds []"

section \<open>Strings\<close>

text \<open>\<open>toLowerCase\<close> on the ASCII letters. The code applies it to validated identifiers
  (ASCII by validation), to PostgreSQL type names searched for ASCII words and to default
  values compared with \<open>true\<close> and \<open>false\<close>; it reaches the name of a cached model only
  when the definition has no table name, and \<open>loadModel\<close> gives every cached definition
  one. The same folding stands for the flag \<open>i\<close> of the keyword pattern.\<close>

definition lower_char :: "char \<Rightarrow> char" where
  "lower_char c =
     (case map_of (zip ''ABCDEFGHIJKLMNOPQRSTUVWXYZ'' ''abcdefghijklmnopqrstuvwxyz'') c of
        Some d \<Rightarrow> d
      | None \<Rightarrow> c)"

definition toLowerCase :: "string \<Rightarrow> string" where
  "toLowerCase s = map lower_char s"

section \<open>The database interface\<close>

type_synonym row = "string \<rightharpoonup> jsval"

text \<open>The parameterized statements the service builds with \<open>Prisma.sql\<close>: the table
  name (interpolated as it is, without quotes), the interpolated column names and the bound
  values.\<close>

datatype sql =
    SelectById string jsnum
  | InsertInto string "string list" "jsval list"
  | UpdateById string jsobject jsnum
  | DeleteById string jsnum

text \<open>\<open>$queryRaw\<close>: the rows the database returns, or \<open>None\<close> when the call throws.\<close>

type_synonym database = "sql \<Rightarrow> row list option"

type_synonym registry = "string \<rightharpoonup> ModelDefinition"

section \<open>Dynamic query engine (DynamicApiService)\<close>

text \<open>\<open>getModel\<close>: the cache lookup throws \<open>NotFoundException\<close> for an unknown name.\<close>

definition getModel :: "registry \<Rightarrow> string \<Rightarrow> http_error + ModelDefinition" where
  "getModel cache modelName =
     (case cache modelName of None \<Rightarrow> Inl NotFoundException | Some model \<Rightarrow> Inr model)"

text \<open>\<open>model.tableName || model.name.toLowerCase()\<close>\<close>

definition table_of :: "ModelDefinition \<Rightarrow> string" where
  "table_of model =
     (case tableName model of
        None \<Rightarrow> toLowerCase (name model)
      | Some t \<Rightarrow> if t = [] then toLowerCase (name model) else t)"

text \<open>Whether an optional string is truthy (\<open>if (model.ownerField)\<close>).\<close>

definition truthy_str :: "string option \<Rightarrow> bool" where
  "truthy_str s = (case s of None \<Rightarrow> False | Some t \<Rightarrow> t \<noteq> [])"

definition findOne :: "registry \<Rightarrow> database \<Rightarrow> string \<Rightarrow> jsnum \<Rightarrow> http_error + row" where
  "findOne cache db modelName ident =
     (case getModel cache modelName of
        Inl e \<Rightarrow> Inl e
      | Inr model \<Rightarrow>
          (case db (SelectById (table_of model) ident) of
             None \<Rightarrow> Inl InternalServerError
           | Some [] \<Rightarrow> Inl NotFoundException
           | Some (r # rs) \<Rightarrow> Inr r))"

text \<open>The statement \<open>create\<close> builds, up to the call of \<open>$queryRaw\<close>.\<close>

definition create_query ::
  "runtime \<Rightarrow> registry \<Rightarrow> string \<Rightarrow> payload \<Rightarrow> jsnum option \<Rightarrow> http_error + sql" where
  "create_query rt cache modelName data ownerId =
     (case getModel cache modelName of
        Inl e \<Rightarrow> Inl e
      | Inr model \<Rightarrow>
          (case validateAndSanitizeData rt data (model_fields model) of
             Inl e \<Rightarrow> Inl e
           | Inr sanitizedData \<Rightarrow>
               (let sanitizedData' =
                      (case (ownerField model, ownerId) of
                         (Some f, Some uid) \<Rightarrow>
                           if f \<noteq> [] then assign f (JNum uid) sanitizedData else sanitizedData
                       | _ \<Rightarrow> sanitizedData)
                in if length sanitizedData' = 0 then Inl BadRequestException
                   else Inr (InsertInto (table_of model) (map fst sanitizedData')
                               (map snd sanitizedData')))))"

text \<open>\<open>create\<close> returns the first returned row, or \<open>null\<close>; the \<open>catch\<close> turns any
  exception of the query into \<open>BadRequestException\<close>.\<close>

definition create ::
  "runtime \<Rightarrow> registry \<Rightarrow> database \<Rightarrow> string \<Rightarrow> payload \<Rightarrow> jsnum option \<Rightarrow> http_error + row option" where
  "create rt cache db modelName data ownerId =
     (case create_query rt cache modelName data ownerId of
        Inl e \<Rightarrow> Inl e
      | Inr q \<Rightarrow>
          (case db q of
             None \<Rightarrow> Inl BadRequestException
           | Some [] \<Rightarrow> Inr None
           | Some (r # rs) \<Rightarrow> Inr (Some r)))"

text \<open>The statement \<open>update\<close> builds; \<open>now\<close> is the value of \<open>new Date()\<close>.\<close>

definition update_query ::
  "runtime \<Rightarrow> registry \<Rightarrow> int \<Rightarrow> string \<Rightarrow> jsnum \<Rightarrow> payload \<Rightarrow> http_error + sql" where
  "update_query rt cache now modelName ident data =
     (case getModel cache modelName of
        Inl e \<Rightarrow> Inl e
      | Inr model \<Rightarrow>
          (case validateAndSanitizeData rt data (model_fields model) of
             Inl e \<Rightarrow> Inl e
           | Inr sanitizedData \<Rightarrow>
               (let sanitizedData' = assign ''updatedAt'' (JDate now) sanitizedData
                in if length sanitizedData' \<le> 1 then Inl BadRequestException
                   else Inr (UpdateById (table_of model) sanitizedData' ident))))"

text \<open>What the \<open>try\<close> block of \<open>update\<close> throws or returns.\<close>

datatype thrown = Http http_error | PrismaError

definition update_try :: "database \<Rightarrow> sql \<Rightarrow> thrown + row" where
  "update_try db q =
     (case db q of
        None \<Rightarrow> Inl PrismaError
      | Some [] \<Rightarrow> Inl (Http NotFoundException)
      | Some (r # rs) \<Rightarrow> Inr r)"

text \<open>\<open>catch (e: any) { throw new BadRequestException(...) }\<close> encloses the whole block.\<close>

definition update ::
  "runtime \<Rightarrow> registry \<Rightarrow> database \<Rightarrow> int \<Rightarrow> string \<Rightarrow> jsnum \<Rightarrow> payload \<Rightarrow> http_error + row" where
  "update rt cache db now modelName ident data =
     (case update_query rt cache now modelName ident data of
        Inl e \<Rightarrow> Inl e
      | Inr q \<Rightarrow>
          (case update_try db q of
             Inl e \<Rightarrow> Inl BadRequestException
           | Inr r \<Rightarrow> Inr r))"

definition delete_record ::
  "registry \<Rightarrow> database \<Rightarrow> string \<Rightarrow> jsnum \<Rightarrow> http_error + unit" where
  "delete_record cache db modelName ident =
     (case getModel cache modelName of
        Inl e \<Rightarrow> Inl e
      | Inr model \<Rightarrow>
          (case findOne cache db modelName ident of
             Inl e \<Rightarrow> Inl e
           | Inr r \<Rightarrow>
               (case db (DeleteById (table_of model) ident) of
                  None \<Rightarrow> Inl InternalServerError
                | Some rs \<Rightarrow> Inr ())))"

section \<open>Access decision point (RbacGuard.canActivate)\<close>

record principal =
  role :: string
  sub :: jsnum

text \<open>What the guard reads of the request: the public marker of the route, the
  authenticated user, the HTTP method and the route parameters.\<close>

record request =
  isPublic :: bool
  req_user :: "principal option"
  req_method :: string
  param_modelName :: "string option"
  param_id :: "string option"

definition requiredPermission :: "string \<Rightarrow> string option" where
  "requiredPermission m =
     (if m = ''POST'' then Some ''create''
      else if m = ''GET'' then Some ''read''
      else if m = ''PUT'' \<or> m = ''PATCH'' then Some ''update''
      else if m = ''DELETE'' then Some ''delete''
      else None)"

text \<open>
  \<open>modelDef.rbac?.[userRole] || []\<close>. The policy is a plain object: a role that is
  not among its own keys but is the name of a member of \<open>Object.prototype\<close> reads that
  member, a function or the prototype object. It is truthy and has no \<open>includes\<close>, so the
  call \<open>rolePermissions.includes(...)\<close> that follows throws a \<open>TypeError\<close>; \<open>None\<close>
  stands for that case.
\<close>

definition rolePermissions :: "ModelDefinition \<Rightarrow> string \<Rightarrow> string list option" where
  "rolePermissions modelDef userRole =
     (case rbac modelDef of
        None \<Rightarrow> Some []
      | Some policy \<Rightarrow>
          (case policy userRole of
             Some ps \<Rightarrow> Some ps
           | None \<Rightarrow> if userRole \<in> set object_prototype_keys then None else Some []))"

definition hasRolePermission :: "string list \<Rightarrow> string \<Rightarrow> bool" where
  "hasRolePermission ps perm = (perm \<in> set ps \<or> ''all'' \<in> set ps)"

text \<open>\<open>params.id ? parseInt(params.id, 10) : null\<close>\<close>

definition recordId :: "runtime \<Rightarrow> string option \<Rightarrow> jsnum option" where
  "recordId rt p =
     (case p of
        None \<Rightarrow> None
      | Some s \<Rightarrow> if s = [] then None else Some (parseInt10 rt s))"

text \<open>
  \<open>record[modelDef.ownerField] === user.sub\<close>. A name that is not a column of the row
  reads \<open>undefined\<close> or an inherited member of \<open>Object.prototype\<close>; neither is a number.
\<close>

definition owner_matches :: "row \<Rightarrow> string \<Rightarrow> jsnum \<Rightarrow> bool" where
  "owner_matches r f uid = (case r f of None \<Rightarrow> False | Some v \<Rightarrow> strict_eq_num v uid)"

text \<open>The ownership branch (the body of the second \<open>if\<close>): the guard fetches the
  record and compares its owner field with \<open>user.sub\<close> by \<open>!==\<close>.\<close>

definition ownership_check ::
  "runtime \<Rightarrow> registry \<Rightarrow> database \<Rightarrow> string \<Rightarrow> string \<Rightarrow> principal \<Rightarrow> string option
     \<Rightarrow> http_error + bool" where
  "ownership_check rt cache db modelName f user pid =
     (case recordId rt pid of
        None \<Rightarrow> Inl BadRequestException
      | Some rid \<Rightarrow>
          (if \<not> Boolean (JNum rid) then Inl BadRequestException
           else (case findOne cache db modelName rid of
                   Inl e \<Rightarrow> Inl e
                 | Inr r \<Rightarrow>
                     (if \<not> owner_matches r f (sub user)
                      then Inl ForbiddenException
                      else Inr True))))"

definition canActivate :: "runtime \<Rightarrow> registry \<Rightarrow> database \<Rightarrow> request \<Rightarrow> http_error + bool" where
  "canActivate rt cache db req =
     (if isPublic req then Inr True
      else (case req_user req of
        None \<Rightarrow> Inl ForbiddenException
      | Some user \<Rightarrow>
          (if role user = [] \<or> \<not> Boolean (JNum (sub user)) then Inl ForbiddenException
           else (case param_modelName req of
             None \<Rightarrow> Inr True
           | Some modelName \<Rightarrow>
               (if modelName = [] then Inr True
                else (case requiredPermission (req_method req) of
                  None \<Rightarrow> Inr True
                | Some perm \<Rightarrow>
                    (case cache modelName of
                       None \<Rightarrow> Inl NotFoundException
                     | Some modelDef \<Rightarrow>
                         (case rolePermissions modelDef (role user) of
                            None \<Rightarrow> Inl InternalServerError
                          | Some ps \<Rightarrow>
                              (if \<not> hasRolePermission ps perm
                               then Inl ForbiddenException
                               else if (perm = ''update'' \<or> perm = ''delete'')
                                       \<and> truthy_str (ownerField modelDef)
                                       \<and> role user \<noteq> ''Admin''
                               then ownership_check rt cache db modelName
                                      (case ownerField modelDef of None \<Rightarrow> [] | Some f \<Rightarrow> f)
                                      user (param_id req)
                               else Inr True)))))))))"

section \<open>Schema synthesizer (ModelDefinitionsService)\<close>

subsection \<open>Identifiers and default values\<close>

definition RESERVED_NAMES :: "string list" where
  "RESERVED_NAMES = [''user'', ''migration'', ''enum'']"

definition ident_start :: "char \<Rightarrow> bool" where
  "ident_start c =
     (c \<in> set ''abcdefghijklmnopqrstuvwxyzABCDEFGHIJKLMNOPQRSTUVWXYZ'' \<or> c = CHR ''_'')"

definition ident_char :: "char \<Rightarrow> bool" where
  "ident_char c = (ident_start c \<or> c \<in> set ''0123456789'')"

text \<open>\<open>/^[a-zA-Z_][a-zA-Z0-9_]*$/.test(name) && name.length > 0\<close>\<close>

fun isValidIdentifier :: "string \<Rightarrow> bool" where
  "isValidIdentifier [] = False"
| "isValidIdentifier (c # cs) = (ident_start c \<and> list_all ident_char cs)"

fun starts_with :: "string \<Rightarrow> string \<Rightarrow> bool" where
  "starts_with s [] = True"
| "starts_with [] (p # ps) = False"
| "starts_with (c # cs) (p # ps) = (c = p \<and> starts_with cs ps)"

text \<open>\<open>s.includes(needle)\<close>\<close>

fun includes_str :: "string \<Rightarrow> string \<Rightarrow> bool" where
  "includes_str [] needle = (needle = [])"
| "includes_str (c # cs) needle = (starts_with (c # cs) needle \<or> includes_str cs needle)"

definition forbidden :: "string list" where
  "forbidden = [''DROP'', ''DELETE'', ''INSERT'', ''UPDATE'', ''ALTER'', ''CREATE'', ''TABLE'',
                ''SCHEMA'', ''SELECT'']"

text \<open>
  \<open>new RegExp('\\b(DROP|...)\\b', 'i').test(valueStr)\<close>: a keyword, in any letter case,
  with no word character (\<open>[A-Za-z0-9_]\<close>) right before it and none right after it.
  \<open>prev\<close> tells whether the character before the current position is a word character.
\<close>

definition keyword_here :: "string \<Rightarrow> string \<Rightarrow> bool" where
  "keyword_here kw s =
     (length kw \<le> length s
      \<and> toLowerCase (take (length kw) s) = toLowerCase kw
      \<and> (case drop (length kw) s of [] \<Rightarrow> True | d # ds \<Rightarrow> \<not> ident_char d))"

fun forbidden_scan :: "bool \<Rightarrow> string \<Rightarrow> bool" where
  "forbidden_scan prev [] = False"
| "forbidden_scan prev (c # cs) =
     ((\<not> prev \<and> list_ex (\<lambda>kw. keyword_here kw (c # cs)) forbidden)
      \<or> forbidden_scan (ident_char c) cs)"

text \<open>\<open>Inl\<close> stands for the \<open>TypeError\<close> of \<open>String(value)\<close>.\<close>

definition isValidDefaultValue :: "runtime \<Rightarrow> jsval \<Rightarrow> FieldType \<Rightarrow> http_error + bool" where
  "isValidDefaultValue rt v ty =
     (if v = JNull \<or> v = JUndefined \<or> v = JStr [] then Inr True
      else
        (case String_js rt v of
           None \<Rightarrow> Inl InternalServerError
         | Some valueStr \<Rightarrow>
             if includes_str valueStr '';'' \<or> includes_str valueStr ''--'' then Inr False
             else if forbidden_scan False valueStr then Inr False
             else if ty = ''number'' \<and> isNaN (StringToNumber rt valueStr) then Inr False
             else if ty = ''boolean'' \<and> toLowerCase valueStr \<noteq> ''true''
                     \<and> toLowerCase valueStr \<noteq> ''false'' then Inr False
             else if ty = ''date'' \<and> isNaN (DateParse rt valueStr) then Inr False
             else Inr True))"

subsection \<open>SQL building\<close>

definition mapDbTypeToFieldType :: "string \<Rightarrow> FieldType option" where
  "mapDbTypeToFieldType dbType =
     (let lowerType = toLowerCase dbType in
      if includes_str lowerType ''text'' \<or> includes_str lowerType ''char''
         \<or> includes_str lowerType ''uuid'' then Some ''string''
      else if includes_str lowerType ''int'' \<or> includes_str lowerType ''float''
         \<or> includes_str lowerType ''double'' \<or> includes_str lowerType ''numeric''
         \<or> includes_str lowerType ''decimal'' then Some ''number''
      else if includes_str lowerType ''bool'' then Some ''boolean''
      else if includes_str lowerType ''timestamp'' \<or> includes_str lowerType ''date''
        then Some ''date''
      else None)"

definition mapFieldTypeToSqlType :: "FieldType \<Rightarrow> string option" where
  "mapFieldTypeToSqlType fieldType =
     (if fieldType = ''string'' then Some ''TEXT''
      else if fieldType = ''number'' then Some ''FLOAT''
      else if fieldType = ''boolean'' then Some ''BOOLEAN''
      else if fieldType = ''date'' then Some ''TIMESTAMP WITH TIME ZONE''
      else if fieldType = ''relation'' then Some ''INTEGER''
      else None)"

text \<open>\<open>String(value).replace(/'/g, "''")\<close> between two quotes.\<close>

definition quote_text :: "string \<Rightarrow> string" where
  "quote_text s =
     [CHR 0x27] @ concat (map (\<lambda>c. if c = CHR 0x27 then [c, c] else [c]) s) @ [CHR 0x27]"

text \<open>\<open>quoteDefaultValue\<close>; the message of its \<open>BadRequestException\<close> holds the value
  in a template, which converts it to a string as well.\<close>

definition quoteDefaultValue :: "runtime \<Rightarrow> jsval \<Rightarrow> FieldType \<Rightarrow> http_error + string" where
  "quoteDefaultValue rt v ty =
     (if ty = ''boolean'' then
        (case String_js rt v of
           None \<Rightarrow> Inl InternalServerError
         | Some str \<Rightarrow> Inr (if toLowerCase str = ''true'' then ''TRUE'' else ''FALSE''))
      else if ty = ''number'' \<or> ty = ''relation'' then
        (case Number_js rt v of
           None \<Rightarrow> Inl InternalServerError
         | Some num \<Rightarrow>
             if isNaN num then
               (case String_js rt v of
                  None \<Rightarrow> Inl InternalServerError
                | Some str \<Rightarrow> Inl BadRequestException)
             else Inr (NumberToString rt num))
      else
        (case String_js rt v of
           None \<Rightarrow> Inl InternalServerError
         | Some str \<Rightarrow> Inr (quote_text str)))"

definition getDefaultValueForType :: "FieldType \<Rightarrow> jsval" where
  "getDefaultValueForType ty =
     (if ty = ''string'' then JStr []
      else if ty = ''number'' then JNum (Fin 0)
      else if ty = ''boolean'' then JBool False
      else if ty = ''date'' then JStr ''1970-01-01T00:00:00Z''
      else JNull)"

text \<open>Whether \<open>field.default\<close> is neither \<open>undefined\<close>, \<open>null\<close> nor the empty string.\<close>

definition default_given :: "FieldDefinition \<Rightarrow> bool" where
  "default_given field =
     (case fdefault field of
        None \<Rightarrow> False
      | Some v \<Rightarrow> v \<noteq> JUndefined \<and> v \<noteq> JNull \<and> v \<noteq> JStr [])"

text \<open>The column definition \<open>mapFieldToSql\<close> writes, part by part:
  \<open>"name" TYPE [REFERENCES "target"("id") ON DELETE SET NULL] [NOT NULL] [UNIQUE] [DEFAULT d]\<close>.\<close>

record column_sql =
  col_name :: string
  col_type :: string
  col_references :: "string option"
  col_not_null :: bool
  col_unique :: bool
  col_default :: "string option"

definition mapFieldToSql :: "runtime \<Rightarrow> FieldDefinition \<Rightarrow> http_error + column_sql" where
  "mapFieldToSql rt field =
     (if \<not> isValidIdentifier (fname field) then Inl BadRequestException
      else (case mapFieldTypeToSqlType (ftype field) of
        None \<Rightarrow> Inl BadRequestException
      | Some sqlType \<Rightarrow>
          (if ftype field = ''relation'' \<and> \<not> truthy_str (targetModel field)
           then Inl BadRequestException
           else if ftype field = ''relation''
                   \<and> \<not> isValidIdentifier (case targetModel field of None \<Rightarrow> [] | Some t \<Rightarrow> t)
           then Inl BadRequestException
           else
             (let refs = (if ftype field = ''relation''
                          then map_option toLowerCase (targetModel field) else None);
                  base = \<lparr> col_name = fname field, col_type = sqlType, col_references = refs,
                           col_not_null = (required field = Some True),
                           col_unique = (unique field = Some True),
                           col_default = None \<rparr>
              in if default_given field then
                   (case isValidDefaultValue rt (the (fdefault field)) (ftype field) of
                      Inl e \<Rightarrow> Inl e
                    | Inr ok \<Rightarrow>
                        if \<not> ok then Inl BadRequestException
                        else (case quoteDefaultValue rt (the (fdefault field)) (ftype field) of
                                Inl e \<Rightarrow> Inl e
                              | Inr d \<Rightarrow> Inr (base\<lparr> col_default := Some d \<rparr>)))
                 else Inr base))))"

text \<open>The statements sent to PostgreSQL, by kind.\<close>

datatype using_clause = NoUsing | UsingText | UsingNumber | UsingBoolean | UsingDate

datatype statement =
    CreateTable string "column_sql list"
  | CreateFunction
  | DropTrigger string
  | CreateTrigger string
  | AddColumn string column_sql
  | DropColumn string string
  | AlterType string string string using_clause
  | UpdateNulls string string string
  | SetNotNull string string
  | DropNotNull string string
  | SetDefault string string string
  | DropDefault string string
  | DropTable string

text \<open>The entries of \<open>migrationLog\<close>, by kind.\<close>

datatype log_entry =
    AddingColumn string FieldType
  | RemovingColumn string
  | ChangingType string FieldType FieldType
  | SettingNullDefault string
  | MakingRequired string
  | MakingOptional string
  | SettingDefault string string
  | RemovingDefault string

text \<open>\<open>mapFieldToSql\<close> over a list of fields; the first exception ends the map.\<close>

fun map_fields_sql :: "runtime \<Rightarrow> FieldDefinition list \<Rightarrow> http_error + column_sql list" where
  "map_fields_sql rt [] = Inr []"
| "map_fields_sql rt (f # fs) =
     (case mapFieldToSql rt f of
        Inl e \<Rightarrow> Inl e
      | Inr c \<Rightarrow> (case map_fields_sql rt fs of Inl e \<Rightarrow> Inl e | Inr cs \<Rightarrow> Inr (c # cs)))"

subsection \<open>Migration planning (the first part of migrateTable)\<close>

definition protectedColumns :: "ModelDefinition \<Rightarrow> string list" where
  "protectedColumns modelDefinition =
     [''id'', ''createdAt'', ''updatedAt'']
     @ (if truthy_str (ownerField modelDefinition)
        then [the (ownerField modelDefinition)] else [])"

definition columnsToAdd :: "ModelDefinition \<Rightarrow> DbColumnInfo list \<Rightarrow> FieldDefinition list" where
  "columnsToAdd modelDefinition currentSchema =
     filter (\<lambda>field. fname field \<notin> set (map column_name currentSchema))
       (model_fields modelDefinition)"

definition columnsToDrop :: "ModelDefinition \<Rightarrow> DbColumnInfo list \<Rightarrow> string list" where
  "columnsToDrop modelDefinition currentSchema =
     filter (\<lambda>col. col \<notin> set (map fname (model_fields modelDefinition))
                  \<and> col \<notin> set (protectedColumns modelDefinition))
       (map column_name currentSchema)"

definition usingClause :: "FieldType \<Rightarrow> using_clause" where
  "usingClause ty =
     (if ty = ''string'' then UsingText
      else if ty = ''number'' then UsingNumber
      else if ty = ''boolean'' then UsingBoolean
      else if ty = ''date'' then UsingDate
      else NoUsing)"

type_synonym plan = "statement list \<times> log_entry list"

text \<open>The body of the loop over \<open>newFields\<close> for one field found in the current schema
  and not protected, in three parts: type, nullability, default.\<close>

definition type_change :: "string \<Rightarrow> FieldDefinition \<Rightarrow> DbColumnInfo \<Rightarrow> plan" where
  "type_change tbl field existingColumn =
     (case (mapDbTypeToFieldType (data_type existingColumn), mapFieldTypeToSqlType (ftype field)) of
        (Some currentFieldType, Some newSqlType) \<Rightarrow>
          if currentFieldType \<noteq> ftype field then
            ([AlterType tbl (fname field) newSqlType (usingClause (ftype field))],
             [ChangingType (fname field) currentFieldType (ftype field)])
          else ([], [])
      | _ \<Rightarrow> ([], []))"

definition nullability_change ::
  "runtime \<Rightarrow> string \<Rightarrow> FieldDefinition \<Rightarrow> DbColumnInfo \<Rightarrow> http_error + plan" where
  "nullability_change rt tbl field existingColumn =
     (let isCurrentlyNullable = (is_nullable existingColumn = ''YES'');
          shouldBeRequired = (required field = Some True)
      in if shouldBeRequired \<and> isCurrentlyNullable then
           (case quoteDefaultValue rt (getDefaultValueForType (ftype field)) (ftype field) of
              Inl e \<Rightarrow> Inl e
            | Inr d \<Rightarrow>
                Inr ([UpdateNulls tbl (fname field) d, SetNotNull tbl (fname field)],
                     [SettingNullDefault (fname field), MakingRequired (fname field)]))
         else if \<not> shouldBeRequired \<and> \<not> isCurrentlyNullable then
           Inr ([DropNotNull tbl (fname field)], [MakingOptional (fname field)])
         else Inr ([], []))"

definition default_change ::
  "runtime \<Rightarrow> string \<Rightarrow> FieldDefinition \<Rightarrow> DbColumnInfo \<Rightarrow> http_error + plan" where
  "default_change rt tbl field existingColumn =
     (case (if default_given field
            then map_sum id Some (quoteDefaultValue rt (the (fdefault field)) (ftype field))
            else Inr None) of
        Inl e \<Rightarrow> Inl e
      | Inr newDefaultSql \<Rightarrow>
          (let currentDefaultSql = column_default existingColumn in
           if newDefaultSql \<noteq> currentDefaultSql then
             (if truthy_str newDefaultSql then
                Inr ([SetDefault tbl (fname field) (the newDefaultSql)],
                     [SettingDefault (fname field) (the newDefaultSql)])
              else if truthy_str currentDefaultSql then
                Inr ([DropDefault tbl (fname field)], [RemovingDefault (fname field)])
              else Inr ([], []))
           else Inr ([], [])))"

definition field_changes ::
  "runtime \<Rightarrow> ModelDefinition \<Rightarrow> string \<Rightarrow> DbColumnInfo list \<Rightarrow> FieldDefinition
     \<Rightarrow> http_error + plan" where
  "field_changes rt modelDefinition tbl currentSchema field =
     (case find (\<lambda>c. column_name c = fname field) currentSchema of
        None \<Rightarrow> Inr ([], [])
      | Some existingColumn \<Rightarrow>
          (if fname field \<in> set (protectedColumns modelDefinition) then Inr ([], [])
           else
             (case nullability_change rt tbl field existingColumn of
                Inl e \<Rightarrow> Inl e
              | Inr (q2, l2) \<Rightarrow>
                  (case default_change rt tbl field existingColumn of
                     Inl e \<Rightarrow> Inl e
                   | Inr (q3, l3) \<Rightarrow>
                       (let (q1, l1) = type_change tbl field existingColumn
                        in Inr (q1 @ q2 @ q3, l1 @ l2 @ l3))))))"

fun fields_changes ::
  "runtime \<Rightarrow> ModelDefinition \<Rightarrow> string \<Rightarrow> DbColumnInfo list \<Rightarrow> FieldDefinition list
     \<Rightarrow> http_error + plan" where
  "fields_changes rt modelDefinition tbl currentSchema [] = Inr ([], [])"
| "fields_changes rt modelDefinition tbl currentSchema (f # fs) =
     (case field_changes rt modelDefinition tbl currentSchema f of
        Inl e \<Rightarrow> Inl e
      | Inr (q, l) \<Rightarrow>
          (case fields_changes rt modelDefinition tbl currentSchema fs of
             Inl e \<Rightarrow> Inl e
           | Inr (qs, ls) \<Rightarrow> Inr (q @ qs, l @ ls)))"

text \<open>\<open>migrationQueries\<close> and \<open>migrationLog\<close> as they stand before the test
  \<open>migrationQueries.length === 0\<close>; an exception while they are built leaves the method.\<close>

definition migration_plan ::
  "runtime \<Rightarrow> ModelDefinition \<Rightarrow> DbColumnInfo list \<Rightarrow> http_error + plan" where
  "migration_plan rt modelDefinition currentSchema =
     (let tbl = (case tableName modelDefinition of None \<Rightarrow> [] | Some t \<Rightarrow> t) in
      case map_fields_sql rt (columnsToAdd modelDefinition currentSchema) of
        Inl e \<Rightarrow> Inl e
      | Inr cols \<Rightarrow>
          (case fields_changes rt modelDefinition tbl currentSchema (model_fields modelDefinition) of
             Inl e \<Rightarrow> Inl e
           | Inr (qs, ls) \<Rightarrow>
               Inr (map (AddColumn tbl) cols
                      @ map (DropColumn tbl) (columnsToDrop modelDefinition currentSchema)
                      @ qs,
                    map (\<lambda>f. AddingColumn (fname f) (ftype f))
                        (columnsToAdd modelDefinition currentSchema)
                      @ map RemovingColumn (columnsToDrop modelDefinition currentSchema)
                      @ ls)))"


subsection \<open>Validation (validateModelDefinition)\<close>

text \<open>The checks on one relation field; an unknown target model is a
  \<open>NotFoundException\<close>, the other failures are \<open>BadRequestException\<close>.\<close>

definition validate_relation :: "registry \<Rightarrow> FieldDefinition \<Rightarrow> http_error option" where
  "validate_relation cache field =
     (if ftype field = ''relation'' then
        (case targetModel field of
           None \<Rightarrow> Some BadRequestException
         | Some t \<Rightarrow>
             if t = [] then Some BadRequestException
             else if \<not> isValidIdentifier t then Some BadRequestException
             else if cache t = None then Some NotFoundException
             else None)
      else None)"

text \<open>The check of the declared default of a field (\<open>field.default !== undefined\<close>).\<close>

definition validate_default :: "runtime \<Rightarrow> FieldDefinition \<Rightarrow> http_error option" where
  "validate_default rt field =
     (case fdefault field of
        None \<Rightarrow> None
      | Some v \<Rightarrow>
          (case isValidDefaultValue rt v (ftype field) of
             Inl e \<Rightarrow> Some e
           | Inr ok \<Rightarrow> if ok then None else Some BadRequestException))"

text \<open>The loop over the fields; \<open>seen\<close> is the set \<open>fieldNames\<close> of lower-cased names.
  \<open>None\<close> means that no exception was thrown.\<close>

fun validate_fields ::
  "runtime \<Rightarrow> registry \<Rightarrow> string list \<Rightarrow> FieldDefinition list \<Rightarrow> http_error option" where
  "validate_fields rt cache seen [] = None"
| "validate_fields rt cache seen (field # rest) =
     (if \<not> isValidIdentifier (fname field) then Some BadRequestException
      else if toLowerCase (fname field) \<in> set seen then Some BadRequestException
      else (case validate_relation cache field of
        Some e \<Rightarrow> Some e
      | None \<Rightarrow>
          (case validate_default rt field of
             Some e \<Rightarrow> Some e
           | None \<Rightarrow> validate_fields rt cache (toLowerCase (fname field) # seen) rest)))"

definition validate_owner :: "ModelDefinition \<Rightarrow> http_error option" where
  "validate_owner modelDefinition =
     (case ownerField modelDefinition of
        None \<Rightarrow> None
      | Some f \<Rightarrow>
          if f = [] then None
          else if \<not> isValidIdentifier f then Some BadRequestException
          else (case find (\<lambda>fd. fname fd = f) (model_fields modelDefinition) of
                  None \<Rightarrow> None
                | Some ownerFieldDef \<Rightarrow>
                    if ftype ownerFieldDef \<noteq> ''number'' then Some BadRequestException
                    else None))"

definition validateModelDefinition ::
  "runtime \<Rightarrow> registry \<Rightarrow> ModelDefinition \<Rightarrow> http_error option" where
  "validateModelDefinition rt cache modelDefinition =
     (if name modelDefinition = [] then Some BadRequestException
      else if \<not> isValidIdentifier (name modelDefinition) then Some BadRequestException
      else if toLowerCase (name modelDefinition) \<in> set RESERVED_NAMES
        then Some BadRequestException
      else if truthy_str (tableName modelDefinition)
              \<and> \<not> isValidIdentifier (the (tableName modelDefinition))
        then Some BadRequestException
      else (case validate_fields rt cache [] (model_fields modelDefinition) of
        Some e \<Rightarrow> Some e
      | None \<Rightarrow> validate_owner modelDefinition))"

subsection \<open>The state the service works on\<close>

text \<open>
  \<open>db_catalog\<close> is what \<open>getTableSchema\<close> reads from \<open>information_schema.columns\<close> (the
  empty list for a table that does not exist), \<open>db_sent\<close> the statements sent to the
  database so far, \<open>model_files\<close> the documents in the \<open>models\<close> directory and
  \<open>model_cache\<close> the map of \<open>ModelDefinitionCacheService\<close>.
\<close>

type_synonym catalog = "string \<Rightarrow> DbColumnInfo list"

record system =
  db_catalog :: catalog
  db_sent :: "statement list"
  model_files :: "string \<rightharpoonup> ModelDefinition"
  model_cache :: registry

text \<open>The database engine runs a list of statements as one transaction: the catalogue
  after the commit, or \<open>None\<close> when a statement fails and the transaction is rolled back.\<close>

type_synonym engine = "statement list \<Rightarrow> catalog \<Rightarrow> catalog option"

datatype publish_message = TableCreated | AlreadyUpToDate | UpdatedSuccessfully nat

type_synonym response = "publish_message \<times> log_entry list option"

subsection \<open>createTable, migrateTable, publishModel, deleteModel\<close>

text \<open>\<open>CreateTable\<close> stands for the statement with the three system columns \<open>id\<close>,
  \<open>createdAt\<close>, \<open>updatedAt\<close> followed by the given columns.\<close>

definition createTable ::
  "runtime \<Rightarrow> engine \<Rightarrow> system \<Rightarrow> ModelDefinition \<Rightarrow> (http_error + response) \<times> system" where
  "createTable rt pg s modelDefinition =
     (if model_fields modelDefinition = [] then (Inl BadRequestException, s)
      else (case map_fields_sql rt (model_fields modelDefinition) of
        Inl e \<Rightarrow> (Inl e, s)
      | Inr cols \<Rightarrow>
          (let tbl = (case tableName modelDefinition of None \<Rightarrow> [] | Some t \<Rightarrow> t);
               queries = [CreateTable tbl cols, CreateFunction, DropTrigger tbl, CreateTrigger tbl];
               s1 = s\<lparr> db_sent := db_sent s @ queries \<rparr>
           in (case pg queries (db_catalog s) of
                 None \<Rightarrow> (Inl InternalServerError, s1)
               | Some c \<Rightarrow> (Inr (TableCreated, None), s1\<lparr> db_catalog := c \<rparr>)))))"

definition migrateTable ::
  "runtime \<Rightarrow> engine \<Rightarrow> system \<Rightarrow> ModelDefinition \<Rightarrow> DbColumnInfo list
     \<Rightarrow> (http_error + response) \<times> system" where
  "migrateTable rt pg s modelDefinition currentSchema =
     (case migration_plan rt modelDefinition currentSchema of
        Inl e \<Rightarrow> (Inl e, s)
      | Inr (migrationQueries, migrationLog) \<Rightarrow>
          (if length migrationQueries = 0 then (Inr (AlreadyUpToDate, Some []), s)
           else
             (let s1 = s\<lparr> db_sent := db_sent s @ migrationQueries \<rparr>
              in (case pg migrationQueries (db_catalog s) of
                    None \<Rightarrow> (Inl InternalServerError, s1)
                  | Some c \<Rightarrow>
                      (Inr (UpdatedSuccessfully (length migrationQueries), Some migrationLog),
                       s1\<lparr> db_catalog := c \<rparr>)))))"

definition default_rbac :: RbacPolicy where
  "default_rbac =
     [''Admin'' \<mapsto> [''all''],
      ''Manager'' \<mapsto> [''create'', ''read'', ''update''],
      ''Viewer'' \<mapsto> [''read'']]"

definition owner_field_definition :: "string \<Rightarrow> FieldDefinition" where
  "owner_field_definition f =
     \<lparr> fname = f, ftype = ''number'', required = Some False, unique = None,
       fdefault = None, targetModel = None \<rparr>"

text \<open>The definition as \<open>publishModel\<close> completes it before it looks at the database:
  table name, default policy, owner field.\<close>

definition completed :: "ModelDefinition \<Rightarrow> ModelDefinition" where
  "completed modelDefinition =
     (let d1 = modelDefinition\<lparr> tableName := Some (table_of modelDefinition) \<rparr>;
          d2 = (if rbac d1 = None then d1\<lparr> rbac := Some default_rbac \<rparr> else d1)
      in if truthy_str (ownerField d2)
            \<and> find (\<lambda>f. fname f = the (ownerField d2)) (model_fields d2) = None
         then d2\<lparr> model_fields :=
                    model_fields d2 @ [owner_field_definition (the (ownerField d2))] \<rparr>
         else d2)"

text \<open>After the schema step, the document is written and \<open>loadModel\<close> reads it back
  into the cache; the definition came from a JSON body, so what is read back is the
  definition that was written.\<close>

definition publishModel ::
  "runtime \<Rightarrow> engine \<Rightarrow> system \<Rightarrow> ModelDefinition
     \<Rightarrow> (http_error + response \<times> ModelDefinition) \<times> system" where
  "publishModel rt pg s modelDefinition =
     (case validateModelDefinition rt (model_cache s) modelDefinition of
        Some e \<Rightarrow> (Inl e, s)
      | None \<Rightarrow>
          (let d = completed modelDefinition;
               currentSchema = db_catalog s (table_of d);
               tableExists = (length currentSchema > 0)
           in (case (if \<not> tableExists then createTable rt pg s d
                     else migrateTable rt pg s d currentSchema) of
                 (Inl e, s1) \<Rightarrow> (Inl e, s1)
               | (Inr resp, s1) \<Rightarrow>
                   (Inr (resp, d),
                    s1\<lparr> model_files := (model_files s1)(name d \<mapsto> d),
                        model_cache := (model_cache s1)(name d \<mapsto> d) \<rparr>))))"

definition deleteModel ::
  "engine \<Rightarrow> system \<Rightarrow> string \<Rightarrow> (http_error + unit) \<times> system" where
  "deleteModel pg s modelName =
     (if \<not> isValidIdentifier modelName then (Inl BadRequestException, s)
      else if model_files s modelName = None then (Inl NotFoundException, s)
      else
        (let tbl = toLowerCase modelName;
             s1 = s\<lparr> db_sent := db_sent s @ [DropTable tbl] \<rparr>
         in (case pg [DropTable tbl] (db_catalog s) of
               None \<Rightarrow> (Inl InternalServerError, s1)
             | Some c \<Rightarrow>
                 (Inr (),
                  s1\<lparr> db_catalog := c,
                      model_files := (model_files s1)(modelName := None),
                      model_cache := (model_cache s1)(modelName := None) \<rparr>))))"


section \<open>Conditions used in the statements below\<close>

text \<open>An identifier as the specification describes the offending ones: it contains a
  character outside \<open>[A-Za-z0-9_]\<close>, or it starts with a character that is neither a
  letter nor an underscore.\<close>

definition offending_identifier :: "string \<Rightarrow> bool" where
  "offending_identifier s =
     (list_ex (\<lambda>c. \<not> ident_char c) s \<or> (case s of [] \<Rightarrow> False | c # cs \<Rightarrow> \<not> ident_start c))"

text \<open>What \<open>DROP TABLE IF EXISTS "t" CASCADE\<close> does when it succeeds: table \<open>t\<close> has no
  columns any more, and the columns of every other table are as they were.\<close>

definition drop_table_semantics :: "engine \<Rightarrow> bool" where
  "drop_table_semantics pg =
     (\<forall>t c c'. pg [DropTable t] c = Some c' \<longrightarrow> c' = c(t := []))"

text \<open>The policy entry of a role as the specification describes it: the permissions
  listed for the role, the empty list when the model has no policy or the policy has no
  entry for the role.\<close>

definition policy_entry :: "ModelDefinition \<Rightarrow> string \<Rightarrow> string list" where
  "policy_entry modelDef r =
     (case rbac modelDef of
        None \<Rightarrow> []
      | Some policy \<Rightarrow> (case policy r of None \<Rightarrow> [] | Some ps \<Rightarrow> ps))"

text \<open>A role that has no entry in the policy and bears the name of a member of
  \<open>Object.prototype\<close>: the lookup of the guard finds that member. The roles the platform
  registers (\<open>Admin\<close>, \<open>Manager\<close>, \<open>Viewer\<close>) are not such names.\<close>

definition inherited_role :: "ModelDefinition \<Rightarrow> string \<Rightarrow> bool" where
  "inherited_role modelDef r =
     (case rbac modelDef of
        None \<Rightarrow> False
      | Some policy \<Rightarrow> policy r = None \<and> r \<in> set object_prototype_keys)"


section \<open>Concrete inputs\<close>

text \<open>A runtime for the examples. It agrees with the JavaScript engine on the inputs the
  examples give it: strings of decimal digits and the empty string for the two parsers,
  natural numbers for \<open>String(number)\<close>; the examples use no dates.\<close>

definition digit_of :: "char \<Rightarrow> nat" where
  "digit_of c =
     (case map_of (zip ''0123456789'' [0, 1, 2, 3, 4, 5, 6, 7, 8, 9]) c of
        Some d \<Rightarrow> d
      | None \<Rightarrow> 0)"

definition decimal :: "string \<Rightarrow> jsnum" where
  "decimal s =
     (if s \<noteq> [] \<and> list_all (\<lambda>c. c \<in> set ''0123456789'') s
      then Fin (of_nat (foldl (\<lambda>a c. 10 * a + digit_of c) 0 s))
      else NaN)"

fun render_nat :: "nat \<Rightarrow> nat \<Rightarrow> string" where
  "render_nat 0 n = []"
| "render_nat (Suc fuel) n =
     (if n < 10 then [''0123456789'' ! n]
      else render_nat fuel (n div 10) @ [''0123456789'' ! (n mod 10)])"

definition example_runtime :: runtime where
  "example_runtime =
     \<lparr> StringToNumber = (\<lambda>s. if s = [] then Fin 0 else decimal s),
       NumberToString = (\<lambda>n. case n of Fin r \<Rightarrow> render_nat 30 (nat \<lfloor>r\<rfloor>) | _ \<Rightarrow> ''NaN''),
       parseInt10 = decimal,
       DateParse = (\<lambda>s. NaN),
       DateToString = (\<lambda>t. ''Invalid Date'') \<rparr>"

text \<open>How PostgreSQL lists a column created by \<open>CREATE TABLE\<close> from a column definition
  without a default, and the three system columns.\<close>

definition reported_type :: "string \<Rightarrow> string" where
  "reported_type sqlType =
     (if sqlType = ''TEXT'' then ''text''
      else if sqlType = ''FLOAT'' then ''double precision''
      else if sqlType = ''BOOLEAN'' then ''boolean''
      else if sqlType = ''TIMESTAMP WITH TIME ZONE'' then ''timestamp with time zone''
      else if sqlType = ''INTEGER'' then ''integer''
      else toLowerCase sqlType)"

definition reported_column :: "column_sql \<Rightarrow> DbColumnInfo" where
  "reported_column c =
     \<lparr> column_name = col_name c, data_type = reported_type (col_type c),
       is_nullable = (if col_not_null c then ''NO'' else ''YES''),
       column_default = None \<rparr>"

definition system_columns :: "string \<Rightarrow> DbColumnInfo list" where
  "system_columns tbl =
     [\<lparr> column_name = ''id'', data_type = ''integer'', is_nullable = ''NO'',
        column_default = Some (''nextval('' @ [CHR 0x27] @ tbl @ ''_id_seq'' @ [CHR 0x27]
                                 @ ''::regclass)'') \<rparr>,
      \<lparr> column_name = ''createdAt'', data_type = ''timestamp with time zone'',
        is_nullable = ''YES'', column_default = Some ''CURRENT_TIMESTAMP'' \<rparr>,
      \<lparr> column_name = ''updatedAt'', data_type = ''timestamp with time zone'',
        is_nullable = ''YES'', column_default = Some ''CURRENT_TIMESTAMP'' \<rparr>]"

text \<open>An engine for the examples: it creates and drops tables, and accepts every other
  statement without a change of the catalogue (the examples only retype a column to the
  type it has).\<close>

fun example_effect :: "statement \<Rightarrow> catalog \<Rightarrow> catalog" where
  "example_effect (CreateTable t cols) c =
     (if c t = [] then c(t := system_columns t @ map reported_column cols) else c)"
| "example_effect (DropTable t) c = c(t := [])"
| "example_effect stmt c = c"

definition example_engine :: engine where
  "example_engine stmts c = Some (fold example_effect stmts c)"

definition failing_engine :: engine where
  "failing_engine stmts c = None"

definition empty_system :: system where
  "empty_system =
     \<lparr> db_catalog = (\<lambda>t. []), db_sent = [], model_files = Map.empty,
       model_cache = Map.empty \<rparr>"

definition text_field :: "string \<Rightarrow> FieldDefinition" where
  "text_field f =
     \<lparr> fname = f, ftype = ''string'', required = None, unique = None, fdefault = None,
       targetModel = None \<rparr>"


definition relation_field :: "string \<Rightarrow> string \<Rightarrow> FieldDefinition" where
  "relation_field f target =
     \<lparr> fname = f, ftype = ''relation'', required = None, unique = None, fdefault = None,
       targetModel = Some target \<rparr>"



text \<open>The model of the end-to-end test: \<open>Product\<close> with owner field \<open>creatorId\<close>.\<close>

definition product :: ModelDefinition where
  "product =
     \<lparr> name = ''Product'', tableName = None, ownerField = Some ''creatorId'',
       model_fields = [text_field ''name''],
       rbac = Some default_rbac \<rparr>"

definition category :: ModelDefinition where
  "category =
     \<lparr> name = ''Category'', tableName = None, ownerField = None,
       model_fields = [text_field ''title''], rbac = None \<rparr>"

text \<open>A model with a relation field, and one stored under another table name.\<close>

definition article :: ModelDefinition where
  "article =
     \<lparr> name = ''Article'', tableName = None, ownerField = None,
       model_fields = [text_field ''title'', relation_field ''category'' ''Category''],
       rbac = None \<rparr>"

definition invoice :: ModelDefinition where
  "invoice =
     \<lparr> name = ''Invoice'', tableName = Some ''billing'', ownerField = None,
       model_fields = [text_field ''customer''], rbac = None \<rparr>"

definition manager :: principal where
  "manager = \<lparr> role = ''Manager'', sub = Fin 2 \<rparr>"


definition product_cache :: registry where
  "product_cache = [''Product'' \<mapsto> completed product]"

text \<open>A database that holds one product, record 7, created by the manager.\<close>

definition product_row :: row where
  "product_row =
     [''id'' \<mapsto> JNum (Fin 7), ''name'' \<mapsto> JStr ''Manager Product'',
      ''creatorId'' \<mapsto> JNum (Fin 2)]"

definition product_db :: database where
  "product_db q =
     (case q of
        SelectById t i \<Rightarrow> if t = ''product'' \<and> i = Fin 7 then Some [product_row] else Some []
      | UpdateById t sets i \<Rightarrow>
          if t = ''product'' \<and> i = Fin 7 then Some [product_row ++ map_of sets] else Some []
      | _ \<Rightarrow> Some [])"

definition delete_request :: "principal \<Rightarrow> string \<Rightarrow> string \<Rightarrow> request" where
  "delete_request user modelName ident =
     \<lparr> isPublic = False, req_user = Some user, req_method = ''DELETE'',
       param_modelName = Some modelName, param_id = Some ident \<rparr>"


text \<open>The second version of \<open>Product\<close>: field \<open>name\<close> removed, field \<open>price\<close> added; and
  the columns of table \<open>product\<close> after the first version was published.\<close>

definition price_field :: FieldDefinition where
  "price_field =
     \<lparr> fname = ''price'', ftype = ''number'', required = None, unique = None, fdefault = None,
       targetModel = None \<rparr>"

definition product_v2 :: ModelDefinition where
  "product_v2 = completed (product\<lparr> model_fields := [price_field] \<rparr>)"

definition product_columns :: "DbColumnInfo list" where
  "product_columns =
     system_columns ''product''
     @ [\<lparr> column_name = ''name'', data_type = ''text'', is_nullable = ''YES'',
          column_default = None \<rparr>,
        \<lparr> column_name = ''creatorId'', data_type = ''double precision'', is_nullable = ''YES'',
          column_default = None \<rparr>]"

text \<open>The systems reached by publishing \<open>Category\<close>, then \<open>Article\<close>, and by publishing
  \<open>Invoice\<close>, from the empty system.\<close>

definition category_system :: system where
  "category_system = snd (publishModel example_runtime example_engine empty_system category)"

definition article_system :: system where
  "article_system = snd (publishModel example_runtime example_engine category_system article)"

definition invoice_system :: system where
  "invoice_system = snd (publishModel example_runtime example_engine empty_system invoice)"




section \<open>Field coercion: what reaches the SQL\<close>










lemma sanitize_loop_error:
  "sanitize_loop rt data fs acc = Inl e \<Longrightarrow> e = InternalServerError"
proof (induction fs arbitrary: acc)
  case Nil
  then show ?case by simp
next
  case (Cons f fs)
  then show ?case
    by (auto simp: coerce_field_def split: if_splits option.splits sum.splits)
qed





lemma completed_product:
  "completed product =
     \<lparr> name = ''Product'', tableName = Some ''product'', ownerField = Some ''creatorId'',
       model_fields = [text_field ''name'', owner_field_definition ''creatorId''],
       rbac = Some default_rbac \<rparr>"
  by (simp add: completed_def product_def table_of_def toLowerCase_def lower_char_def
      truthy_str_def text_field_def owner_field_definition_def Let_def)







section \<open>The update operation\<close>

lemma update_outcomes:
  assumes "cache m = Some model"
    and "validateAndSanitizeData rt data (model_fields model) = Inr sd"
  shows "update rt cache db now m i data =
           (let sets = assign ''updatedAt'' (JDate now) sd
            in if length sets \<le> 1 then Inl BadRequestException
               else (case db (UpdateById (table_of model) sets i) of
                       Some (r # rs) \<Rightarrow> Inr r
                     | _ \<Rightarrow> Inl BadRequestException))"
  using assms
  by (auto simp: update_def update_query_def update_try_def getModel_def Let_def
      split: option.splits list.splits)

lemma update_never_not_found:
  "cache m = Some model \<Longrightarrow> update rt cache db now m i data \<noteq> Inl NotFoundException"
  by (auto simp: update_def update_query_def getModel_def Let_def validateAndSanitizeData_def
      split: sum.splits dest: sanitize_loop_error)

text \<open>
  C4. \<open>update\<close> on record 8 of \<open>Product\<close>, which no row has: the statement returns no row,
  the \<open>try\<close> block throws \<open>NotFoundException\<close>, and the enclosing \<open>catch\<close> replaces it, so
  the caller gets \<open>BadRequestException\<close> where the specification says NotFound;
  \<open>findOne\<close> on the same id gives \<open>NotFoundException\<close>.
\<close>

theorem update_swallows_not_found:
  "product_cache ''Product'' = Some (completed product)
   \<and> product_db (SelectById ''product'' (Fin 8)) = Some []
   \<and> update_query example_runtime product_cache 0 ''Product'' (Fin 8) [''name'' \<mapsto> JStr ''x'']
       = Inr (UpdateById ''product'' [(''name'', JStr ''x''), (''updatedAt'', JDate 0)] (Fin 8))
   \<and> update_try product_db
        (UpdateById ''product'' [(''name'', JStr ''x''), (''updatedAt'', JDate 0)] (Fin 8))
       = Inl (Http NotFoundException)
   \<and> update example_runtime product_cache product_db 0 ''Product'' (Fin 8) [''name'' \<mapsto> JStr ''x'']
       = Inl BadRequestException
   \<and> findOne product_cache product_db ''Product'' (Fin 8) = Inl NotFoundException"
  by (simp add: completed_product product_cache_def update_def update_query_def getModel_def
      validateAndSanitizeData_def coerce_field_def text_field_def owner_field_definition_def
      table_of_def update_try_def product_db_def findOne_def assign_def)

section \<open>Access decisions\<close>

lemma rolePermissions_entry:
  "rolePermissions modelDef r =
     (if inherited_role modelDef r then None else Some (policy_entry modelDef r))"
  by (simp add: rolePermissions_def inherited_role_def policy_entry_def split: option.splits)




text \<open>
  C1, as amended. For a model with an owner field and an update or delete request that
  names an existing record, by an authenticated principal whose role is an entry of the
  policy or is not the name of a member of \<open>Object.prototype\<close>: a principal whose role is
  not \<open>Admin\<close> is denied with \<open>ForbiddenException\<close> when the record's owner value is not
  strictly equal to the principal's id; when the role gate has passed, the same principal
  is allowed if the owner value equals the id, and an \<open>Admin\<close> principal is allowed
  whatever the owner value is.
\<close>

theorem ownership_gate:
  assumes "\<not> isPublic req" and "req_user req = Some user"
    and "role user \<noteq> []" and "Boolean (JNum (sub user))"
    and "param_modelName req = Some m" and "m \<noteq> []" and "cache m = Some modelDef"
    and "ownerField modelDef = Some f" and "f \<noteq> []"
    and "requiredPermission (req_method req) = Some perm"
    and "perm = ''update'' \<or> perm = ''delete''"
    and "param_id req = Some pid" and "pid \<noteq> []" and "Boolean (JNum (parseInt10 rt pid))"
    and "db (SelectById (table_of modelDef) (parseInt10 rt pid)) = Some (r # rs)"
    and "\<not> inherited_role modelDef (role user)"
  shows "(role user \<noteq> ''Admin'' \<and> \<not> owner_matches r f (sub user)
            \<longrightarrow> canActivate rt cache db req = Inl ForbiddenException)
         \<and> (hasRolePermission (policy_entry modelDef (role user)) perm \<and> role user \<noteq> ''Admin''
              \<and> owner_matches r f (sub user)
            \<longrightarrow> canActivate rt cache db req = Inr True)
         \<and> (hasRolePermission (policy_entry modelDef (role user)) perm \<and> role user = ''Admin''
            \<longrightarrow> canActivate rt cache db req = Inr True)"
proof -
  have o: "ownership_check rt cache db m f user (param_id req) =
             (if \<not> owner_matches r f (sub user) then Inl ForbiddenException
              else Inr True)"
    using assms(7,12,13,14,15)
    by (simp add: ownership_check_def recordId_def findOne_def getModel_def)
  have c: "canActivate rt cache db req =
             (if \<not> hasRolePermission (policy_entry modelDef (role user)) perm
              then Inl ForbiddenException
              else if role user \<noteq> ''Admin'' then ownership_check rt cache db m f user (param_id req)
              else Inr True)"
    using assms(1-11,16) by (auto simp: canActivate_def truthy_str_def rolePermissions_entry)
  show ?thesis unfolding c o by auto
qed

theorem ownership_gate_witness:
  "\<not> isPublic (delete_request \<lparr>role = ''Owner'', sub = Fin 2\<rparr> ''Product'' ''7'')
   \<and> req_user (delete_request \<lparr>role = ''Owner'', sub = Fin 2\<rparr> ''Product'' ''7'')
       = Some \<lparr>role = ''Owner'', sub = Fin 2\<rparr>
   \<and> role \<lparr>role = ''Owner'', sub = Fin 2\<rparr> \<noteq> []
   \<and> Boolean (JNum (sub \<lparr>role = ''Owner'', sub = Fin 2\<rparr>))
   \<and> param_modelName (delete_request \<lparr>role = ''Owner'', sub = Fin 2\<rparr> ''Product'' ''7'')
       = Some ''Product''
   \<and> ''Product'' \<noteq> []
   \<and> [''Product'' \<mapsto> (completed product)\<lparr>rbac := Some [''Owner'' \<mapsto> [''delete'']]\<rparr>] ''Product''
       = Some ((completed product)\<lparr>rbac := Some [''Owner'' \<mapsto> [''delete'']]\<rparr>)
   \<and> ownerField ((completed product)\<lparr>rbac := Some [''Owner'' \<mapsto> [''delete'']]\<rparr>)
       = Some ''creatorId''
   \<and> ''creatorId'' \<noteq> []
   \<and> requiredPermission
        (req_method (delete_request \<lparr>role = ''Owner'', sub = Fin 2\<rparr> ''Product'' ''7''))
       = Some ''delete''
   \<and> param_id (delete_request \<lparr>role = ''Owner'', sub = Fin 2\<rparr> ''Product'' ''7'') = Some ''7''
   \<and> ''7'' \<noteq> []
   \<and> Boolean (JNum (parseInt10 example_runtime ''7''))
   \<and> product_db (SelectById
         (table_of ((completed product)\<lparr>rbac := Some [''Owner'' \<mapsto> [''delete'']]\<rparr>))
         (parseInt10 example_runtime ''7'')) = Some [product_row]
   \<and> \<not> inherited_role ((completed product)\<lparr>rbac := Some [''Owner'' \<mapsto> [''delete'']]\<rparr>)
          ''Owner''
   \<and> hasRolePermission
        (policy_entry ((completed product)\<lparr>rbac := Some [''Owner'' \<mapsto> [''delete'']]\<rparr>)
           ''Owner'') ''delete''
   \<and> owner_matches product_row ''creatorId'' (Fin 2)
   \<and> canActivate example_runtime
        [''Product'' \<mapsto> (completed product)\<lparr>rbac := Some [''Owner'' \<mapsto> [''delete'']]\<rparr>]
        product_db (delete_request \<lparr>role = ''Owner'', sub = Fin 2\<rparr> ''Product'' ''7'')
       = Inr True"
proof -
  let ?u = "\<lparr>role = ''Owner'', sub = Fin 2\<rparr>"
  let ?d = "(completed product)\<lparr>rbac := Some [''Owner'' \<mapsto> [''delete'']]\<rparr>"
  let ?req = "delete_request ?u ''Product'' ''7''"
  have p: "parseInt10 example_runtime ''7'' = Fin 7"
    by (simp add: example_runtime_def decimal_def digit_of_def)
  have h: "\<not> isPublic ?req" "req_user ?req = Some ?u" "role ?u \<noteq> []" "Boolean (JNum (sub ?u))"
    "param_modelName ?req = Some ''Product''" "''Product'' \<noteq> []"
    "[''Product'' \<mapsto> ?d] ''Product'' = Some ?d"
    "ownerField ?d = Some ''creatorId''" "''creatorId'' \<noteq> []"
    "requiredPermission (req_method ?req) = Some ''delete''"
    "''delete'' = ''update'' \<or> ''delete'' = ''delete''"
    "param_id ?req = Some ''7''" "''7'' \<noteq> []"
    "Boolean (JNum (parseInt10 example_runtime ''7''))"
    "product_db (SelectById (table_of ?d) (parseInt10 example_runtime ''7'')) = Some (product_row # [])"
    "\<not> inherited_role ?d (role ?u)"
    by (simp_all add: p delete_request_def requiredPermission_def completed_product table_of_def
        product_db_def inherited_role_def)
  have g: "hasRolePermission (policy_entry ?d ''Owner'') ''delete''"
    "owner_matches product_row ''creatorId'' (Fin 2)"
    by (simp_all add: hasRolePermission_def policy_entry_def completed_product
        owner_matches_def product_row_def)
  show ?thesis
    using h g ownership_gate [of ?req ?u "''Product''" "[''Product'' \<mapsto> ?d]" ?d "''creatorId''"
        "''delete''" "''7''" example_runtime product_db product_row "[]"]
    by simp
qed

text \<open>The claim C1 as it is written fails where the role gate denies: the manager owns
  record 7, the policy of \<open>Manager\<close> has no \<open>delete\<close>, and the delete request is denied.\<close>

theorem ownership_gate_counterexample:
  "role manager \<noteq> ''Admin''
   \<and> ownerField (completed product) = Some ''creatorId''
   \<and> product_cache ''Product'' = Some (completed product)
   \<and> findOne product_cache product_db ''Product'' (Fin 7) = Inr product_row
   \<and> owner_matches product_row ''creatorId'' (sub manager)
   \<and> canActivate example_runtime product_cache product_db (delete_request manager ''Product'' ''7'')
       = Inl ForbiddenException"
  by (simp add: completed_product product_cache_def manager_def findOne_def getModel_def
      table_of_def product_db_def owner_matches_def product_row_def canActivate_def
      delete_request_def requiredPermission_def hasRolePermission_def rolePermissions_def
      default_rbac_def)

section \<open>Migration planning\<close>

lemma field_changes_no_drop:
  "field_changes rt d tbl schema f = Inr (q, l) \<Longrightarrow> DropColumn t c \<notin> set q"
  by (auto simp: field_changes_def type_change_def nullability_change_def default_change_def
      Let_def split: option.splits if_splits sum.splits prod.splits)

lemma fields_changes_no_drop:
  "fields_changes rt d tbl schema fs = Inr (qs, ls) \<Longrightarrow> DropColumn t c \<notin> set qs"
proof (induction fs arbitrary: qs ls)
  case Nil
  then show ?case by simp
next
  case (Cons f fs)
  then show ?case
    by (auto split: sum.splits prod.splits dest: field_changes_no_drop)
qed

lemma protected_not_to_drop:
  "c \<in> set (protectedColumns d) \<Longrightarrow> c \<notin> set (columnsToDrop d schema)"
  by (simp add: columnsToDrop_def)

lemma migration_plan_drops:
  assumes "migration_plan rt d schema = Inr (qs, ls)" and "DropColumn t c \<in> set qs"
  shows "c \<in> set (columnsToDrop d schema)"
proof -
  obtain cols fq fl where
    q: "qs = map (AddColumn (case tableName d of None \<Rightarrow> [] | Some t \<Rightarrow> t)) cols
            @ map (DropColumn (case tableName d of None \<Rightarrow> [] | Some t \<Rightarrow> t)) (columnsToDrop d schema)
            @ fq"
    and f: "fields_changes rt d (case tableName d of None \<Rightarrow> [] | Some t \<Rightarrow> t) schema (model_fields d) = Inr (fq, fl)"
    using assms(1)
    by (auto simp: migration_plan_def Let_def split: sum.splits prod.splits)
  have "DropColumn t c \<notin> set fq" using f by (rule fields_changes_no_drop)
  then show ?thesis using assms(2) unfolding q by auto
qed

text \<open>
  C8. A column named \<open>id\<close>, \<open>createdAt\<close> or \<open>updatedAt\<close>, or named by the model's owner
  field, is never among the columns to drop, whatever the new field list and the current
  schema are, and no \<open>DROP COLUMN\<close> statement of a migration names it.
\<close>

theorem protected_columns_never_dropped:
  assumes "c \<in> {''id'', ''createdAt'', ''updatedAt''} \<or> (ownerField d = Some c \<and> c \<noteq> [])"
  shows "c \<notin> set (columnsToDrop d schema)
         \<and> (\<forall>qs ls t. migration_plan rt d schema = Inr (qs, ls) \<longrightarrow> DropColumn t c \<notin> set qs)"
proof -
  have p: "c \<in> set (protectedColumns d)"
    using assms by (auto simp: protectedColumns_def truthy_str_def)
  then have n: "c \<notin> set (columnsToDrop d schema)" by (rule protected_not_to_drop)
  then show ?thesis using migration_plan_drops by blast
qed

theorem protected_columns_witness:
  "ownerField product_v2 = Some ''creatorId''
   \<and> ''creatorId'' \<notin> fname ` set [price_field]
   \<and> columnsToDrop product_v2 product_columns = [''name'']
   \<and> ''creatorId'' \<notin> set (columnsToDrop product_v2 product_columns)
   \<and> map_sum id snd (migration_plan example_runtime product_v2 product_columns)
       = Inr [AddingColumn ''price'' ''number'', RemovingColumn ''name'']"
proof -
  have h: "ownerField product_v2 = Some ''creatorId'' \<and> ''creatorId'' \<noteq> []"
    by code_simp
  have c: "columnsToDrop product_v2 product_columns = [''name'']"
    by code_simp
  have f: "''creatorId'' \<notin> fname ` set [price_field]"
    by (simp add: price_field_def)
  have m: "map_sum id snd (migration_plan example_runtime product_v2 product_columns)
       = Inr [AddingColumn ''price'' ''number'', RemovingColumn ''name'']"
    by code_simp
  have "''creatorId'' \<notin> set (columnsToDrop product_v2 product_columns)"
    using h protected_columns_never_dropped [of "''creatorId''" product_v2 product_columns
        example_runtime]
    by blast
  then show ?thesis
    using h c f m by blast
qed

lemma relation_field_always_retyped:
  assumes "ftype f = ''relation''" and "mapDbTypeToFieldType (data_type col) = Some ty"
  shows "type_change tbl f col =
           ([AlterType tbl (fname f) ''INTEGER'' NoUsing], [ChangingType (fname f) ty ''relation''])"
proof -
  have "ty \<noteq> ''relation''"
    using assms(2) by (auto simp: mapDbTypeToFieldType_def Let_def split: if_splits)
  then show ?thesis
    using assms by (simp add: type_change_def mapFieldTypeToSqlType_def usingClause_def)
qed

text \<open>
  C3. \<open>Article\<close> has a relation field. Its first publish creates the table; PostgreSQL
  lists the relation column as \<open>integer\<close>, which \<open>mapDbTypeToFieldType\<close> reads as
  \<open>number\<close>, never as \<open>relation\<close>. So the second publish of the same definition does not
  answer "no schema changes needed": it reports one change and sends an
  \<open>ALTER COLUMN ... TYPE INTEGER\<close>.
\<close>

theorem republish_with_relation_field:
  "map_sum id fst (fst (publishModel example_runtime example_engine category_system article))
     = Inr (TableCreated, None)
   \<and> map_sum id fst (fst (publishModel example_runtime example_engine article_system article))
     = Inr (UpdatedSuccessfully 1, Some [ChangingType ''category'' ''number'' ''relation''])
   \<and> db_sent (snd (publishModel example_runtime example_engine article_system article))
     = db_sent article_system @ [AlterType ''article'' ''category'' ''INTEGER'' NoUsing]"
  by code_simp

section \<open>Publishing and deleting\<close>

lemma createTable_failure:
  "createTable rt pg s d = (Inl e, s') \<Longrightarrow>
   db_catalog s' = db_catalog s \<and> model_files s' = model_files s \<and> model_cache s' = model_cache s"
  by (auto simp: createTable_def Let_def split: if_splits sum.splits option.splits)

lemma migrateTable_failure:
  "migrateTable rt pg s d schema = (Inl e, s') \<Longrightarrow>
   db_catalog s' = db_catalog s \<and> model_files s' = model_files s \<and> model_cache s' = model_cache s"
  by (auto simp: migrateTable_def Let_def split: if_splits sum.splits option.splits prod.splits)

text \<open>
  C5. When a publish fails (in particular when the creation or the migration of the table
  fails), the definition document is not written, the registry entry is not refreshed, and
  the columns of every table are as before the publish.
\<close>

theorem publish_failure_keeps_state:
  assumes "publishModel rt pg s d = (Inl e, s')"
  shows "model_files s' = model_files s \<and> model_cache s' = model_cache s
         \<and> db_catalog s' = db_catalog s"
proof (cases "validateModelDefinition rt (model_cache s) d")
  case (Some a)
  then show ?thesis using assms by (simp add: publishModel_def)
next
  case None
  let ?d = "completed d"
  let ?step = "if \<not> length (db_catalog s (table_of ?d)) > 0 then createTable rt pg s ?d
               else migrateTable rt pg s ?d (db_catalog s (table_of ?d))"
  obtain r s1 where st: "?step = (r, s1)" by (cases ?step)
  have "r = Inl e \<and> s1 = s'"
    using assms None st by (cases r) (auto simp: publishModel_def Let_def)
  then have "?step = (Inl e, s')" using st by simp
  then show ?thesis
    using createTable_failure [of rt pg s ?d e s']
      migrateTable_failure [of rt pg s ?d "db_catalog s (table_of ?d)" e s']
    by (auto split: if_splits)
qed

theorem publish_failure_witness:
  "publishModel example_runtime failing_engine invoice_system product
     = (Inl InternalServerError,
        snd (publishModel example_runtime failing_engine invoice_system product))
   \<and> model_files (snd (publishModel example_runtime failing_engine invoice_system product))
       = model_files invoice_system
   \<and> model_cache (snd (publishModel example_runtime failing_engine invoice_system product))
       = model_cache invoice_system
   \<and> db_catalog (snd (publishModel example_runtime failing_engine invoice_system product))
       = db_catalog invoice_system"
proof -
  have "map_sum id fst (fst (publishModel example_runtime failing_engine invoice_system product))
          = Inl InternalServerError"
    by code_simp
  then have "fst (publishModel example_runtime failing_engine invoice_system product)
          = Inl InternalServerError"
    by (cases "fst (publishModel example_runtime failing_engine invoice_system product)") auto
  then have h: "publishModel example_runtime failing_engine invoice_system product
     = (Inl InternalServerError,
        snd (publishModel example_runtime failing_engine invoice_system product))"
    by (simp add: prod_eq_iff)
  show ?thesis
    using h publish_failure_keeps_state [OF h] by simp
qed


lemma valid_iff_not_offending:
  "isValidIdentifier s \<longleftrightarrow> s \<noteq> [] \<and> \<not> offending_identifier s"
  by (cases s) (auto simp: offending_identifier_def ident_char_def list_ex_iff list_all_iff)








lemma publish_success_stores:
  assumes "\<not> isl (fst (publishModel rt pg s d))"
  shows "model_files (snd (publishModel rt pg s d)) (name d) = Some (completed d)
         \<and> model_cache (snd (publishModel rt pg s d)) (name d) = Some (completed d)"
proof -
  have n: "name (completed d) = name d"
    by (simp add: completed_def Let_def)
  show ?thesis
    using assms n
    by (auto simp: publishModel_def Let_def split: option.splits prod.splits sum.splits)
qed

lemma example_engine_drop: "drop_table_semantics example_engine"
  by (simp add: drop_table_semantics_def example_engine_def)

lemma deleteModel_unfold:
  assumes "isValidIdentifier m" and "model_files s m = Some d"
  shows "deleteModel pg s m =
           (case pg [DropTable (toLowerCase m)] (db_catalog s) of
              None \<Rightarrow> (Inl InternalServerError,
                         s\<lparr> db_sent := db_sent s @ [DropTable (toLowerCase m)] \<rparr>)
            | Some c \<Rightarrow>
                (Inr (),
                 s\<lparr> db_sent := db_sent s @ [DropTable (toLowerCase m)], db_catalog := c,
                     model_files := (model_files s)(m := None),
                     model_cache := (model_cache s)(m := None) \<rparr>))"
  using assms by (simp add: deleteModel_def Let_def split: option.splits)

text \<open>
  C10. For a model whose document exists, \<open>deleteModel\<close> sends exactly one statement, the
  drop of the table named by the lower-cased model name, whatever table name the stored
  definition records. It succeeds exactly when the database accepts that statement; the
  catalogue is then the one the database returns for it, and the document and the registry
  entry of the model are removed. With a database whose \<open>DROP TABLE\<close> removes the named
  table and nothing else, the table of the lower-cased name is gone and every other table
  is as it was: a table that the definition names otherwise still has its columns.
\<close>

theorem delete_ignores_table_name:
  assumes "isValidIdentifier m" and "model_files s m = Some d"
  shows "db_sent (snd (deleteModel pg s m)) = db_sent s @ [DropTable (toLowerCase m)]
         \<and> (fst (deleteModel pg s m) = Inr ()
              \<longleftrightarrow> pg [DropTable (toLowerCase m)] (db_catalog s) \<noteq> None)
         \<and> (fst (deleteModel pg s m) = Inr ()
              \<longrightarrow> pg [DropTable (toLowerCase m)] (db_catalog s)
                    = Some (db_catalog (snd (deleteModel pg s m)))
                  \<and> model_files (snd (deleteModel pg s m)) = (model_files s)(m := None)
                  \<and> model_cache (snd (deleteModel pg s m)) = (model_cache s)(m := None))
         \<and> (drop_table_semantics pg \<and> fst (deleteModel pg s m) = Inr ()
              \<longrightarrow> db_catalog (snd (deleteModel pg s m)) = (db_catalog s)(toLowerCase m := []))
         \<and> (\<forall>t. drop_table_semantics pg \<and> fst (deleteModel pg s m) = Inr ()
                  \<and> tableName d = Some t \<and> t \<noteq> toLowerCase m
              \<longrightarrow> db_catalog (snd (deleteModel pg s m)) (toLowerCase m) = []
                  \<and> db_catalog (snd (deleteModel pg s m)) t = db_catalog s t)"
proof (cases "pg [DropTable (toLowerCase m)] (db_catalog s)")
  case None
  then show ?thesis using deleteModel_unfold [OF assms, of pg] by simp
next
  case (Some c)
  have u: "deleteModel pg s m =
             (Inr (),
              s\<lparr> db_sent := db_sent s @ [DropTable (toLowerCase m)], db_catalog := c,
                  model_files := (model_files s)(m := None),
                  model_cache := (model_cache s)(m := None) \<rparr>)"
    using deleteModel_unfold [OF assms, of pg] Some by simp
  have sem: "drop_table_semantics pg \<Longrightarrow> c = (db_catalog s)(toLowerCase m := [])"
    using Some unfolding drop_table_semantics_def by blast
  show ?thesis unfolding u using Some sem by auto
qed

theorem delete_ignores_table_name_witness:
  "isValidIdentifier ''Invoice''
   \<and> model_files invoice_system ''Invoice'' = Some (completed invoice)
   \<and> fst (deleteModel example_engine invoice_system ''Invoice'') = Inr ()
   \<and> tableName (completed invoice) = Some ''billing''
   \<and> ''billing'' \<noteq> toLowerCase ''Invoice''
   \<and> db_sent (snd (deleteModel example_engine invoice_system ''Invoice''))
       = db_sent invoice_system @ [DropTable ''invoice'']
   \<and> model_files (snd (deleteModel example_engine invoice_system ''Invoice'')) ''Invoice'' = None
   \<and> model_cache (snd (deleteModel example_engine invoice_system ''Invoice'')) ''Invoice'' = None
   \<and> db_catalog (snd (deleteModel example_engine invoice_system ''Invoice'')) ''invoice'' = []
   \<and> db_catalog (snd (deleteModel example_engine invoice_system ''Invoice'')) ''billing''
       = db_catalog invoice_system ''billing''
   \<and> map column_name (db_catalog invoice_system ''billing'')
       = [''id'', ''createdAt'', ''updatedAt'', ''customer'']"
proof -
  have h1: "isValidIdentifier ''Invoice''" by code_simp
  have "\<not> isl (fst (publishModel example_runtime example_engine empty_system invoice))"
    by code_simp
  then have h2: "model_files invoice_system ''Invoice'' = Some (completed invoice)"
    using publish_success_stores [of example_runtime example_engine empty_system invoice]
    by (simp add: invoice_system_def invoice_def)
  have h3: "fst (deleteModel example_engine invoice_system ''Invoice'') = Inr ()" by code_simp
  have h4: "tableName (completed invoice) = Some ''billing''" by code_simp
  have h5: "''billing'' \<noteq> toLowerCase ''Invoice''" by code_simp
  have h6: "toLowerCase ''Invoice'' = ''invoice''" by code_simp
  have h7: "map column_name (db_catalog invoice_system ''billing'')
       = [''id'', ''createdAt'', ''updatedAt'', ''customer'']" by code_simp
  show ?thesis
    using h1 h2 h3 h4 h5 h6 h7 example_engine_drop
      delete_ignores_table_name [OF h1 h2, of example_engine]
    by simp
qed

end
